theory Spec2Isabelle
  imports Complex_Main "HOL-Library.Sublist" "HOL-Library.AList"
begin

text \<open>
  A shallow embedding of the Wikimedia adapters and their aggregation (\<open>wikimedia.py\<close>)
  and of the answer extractor (\<open>answer_health_question\<close> in \<open>app.py\<close>). Python values
  are a datatype, an exception is the left injection of a sum, the network and the
  question-answering pipeline are parameters. The definitions come first, the properties
  after them.
\<close>

section \<open>Python strings\<close>

text \<open>
  A Python \<open>str\<close> is modelled as a \<open>string\<close>: one \<open>char\<close> per code point, so only
  the code points below 256 are covered. \<open>len\<close> is \<open>length\<close>.
\<close>

definition isspace :: "char \<Rightarrow> bool" where
  \<comment> \<open>\<open>str.isspace\<close> on the code points below 256: U+0009..U+000D, U+001C..U+0020,
      U+0085 and U+00A0.\<close>
  "isspace c = (let n = of_char c :: nat in
     (9 \<le> n \<and> n \<le> 13) \<or> (28 \<le> n \<and> n \<le> 32) \<or> n = 133 \<or> n = 160)"

definition strip :: "string \<Rightarrow> string" where
  \<comment> \<open>\<open>s.strip()\<close>: leading and trailing whitespace removed.\<close>
  "strip s = rev (dropWhile isspace (rev (dropWhile isspace s)))"

function replace :: "string \<Rightarrow> string \<Rightarrow> string \<Rightarrow> string" where
  \<comment> \<open>\<open>s.replace(old, new)\<close>: every non-overlapping occurrence, leftmost first; an empty
      \<open>old\<close> matches before every character and at the end.\<close>
  "replace old new [] = (if old = [] then new else [])"
| "replace old new (c # cs) =
     (if old = [] then new @ c # replace old new cs
      else if prefix old (c # cs) then new @ replace old new (drop (length old) (c # cs))
      else c # replace old new cs)"
  by pat_completeness auto
termination
  by (relation "measure (\<lambda>(old, new, s). length s)") auto

definition normalize_term :: "string \<Rightarrow> string" where
  \<comment> \<open>\<open>term.strip().replace(" ", "_")\<close>, the first statement of \<open>search_all_wikimedia\<close>.\<close>
  "normalize_term t = replace '' '' ''_'' (strip t)"

section \<open>Python values\<close>

text \<open>
  What \<open>response.json()\<close> returns, and every value the adapters handle, is a Python value
  built from \<open>None\<close>, \<open>bool\<close>, \<open>int\<close>, \<open>float\<close>, \<open>str\<close>, \<open>list\<close> and \<open>dict\<close>
  with \<open>str\<close> keys. A \<open>dict\<close> is an association list in insertion order; a parsed
  JSON object has pairwise distinct keys. A \<open>float\<close> is modelled by its rational value
  (NaN and the infinities are left out).
\<close>

datatype json =
    JNull
  | JBool bool
  | JInt int
  | JFloat rat
  | JStr string
  | JList "json list"
  | JDict "(string \<times> json) list"

datatype py_exn =
    RequestException
  | ValueError
  | TypeError
  | AttributeError
  | KeyError
  | IndexError

type_synonym 'a result = "py_exn + 'a"

definition and_then :: "'e + 'a \<Rightarrow> ('a \<Rightarrow> 'e + 'b) \<Rightarrow> 'e + 'b" where
  \<comment> \<open>Sequencing: an exception raised by the first statement skips the rest.\<close>
  "and_then m f = (case m of Inl e \<Rightarrow> Inl e | Inr v \<Rightarrow> f v)"

fun truthy :: "json \<Rightarrow> bool" where
  \<comment> \<open>\<open>bool(v)\<close>, as \<open>if v\<close> and \<open>not v\<close> test it.\<close>
  "truthy JNull = False"
| "truthy (JBool b) = b"
| "truthy (JInt i) = (i \<noteq> 0)"
| "truthy (JFloat r) = (r \<noteq> 0)"
| "truthy (JStr s) = (s \<noteq> [])"
| "truthy (JList xs) = (xs \<noteq> [])"
| "truthy (JDict kvs) = (kvs \<noteq> [])"

fun py_num :: "json \<Rightarrow> rat option" where
  \<comment> \<open>The numeric value of a number; \<open>bool\<close> is a subclass of \<open>int\<close>.\<close>
  "py_num (JBool b) = Some (if b then 1 else 0)"
| "py_num (JInt i) = Some (of_int i)"
| "py_num (JFloat r) = Some r"
| "py_num _ = None"

fun py_eq :: "json \<Rightarrow> json \<Rightarrow> bool"
  and py_eq_list :: "json list \<Rightarrow> json list \<Rightarrow> bool"
  and py_eq_dict :: "(string \<times> json) list \<Rightarrow> (string \<times> json) list \<Rightarrow> bool" where
  \<comment> \<open>\<open>a == b\<close>: numbers compare by value across \<open>bool\<close>, \<open>int\<close> and \<open>float\<close>, lists
      element by element, dicts by their key sets and the values under each key.\<close>
  "py_eq JNull b = (b = JNull)"
| "py_eq (JBool x) b = (py_num b = py_num (JBool x))"
| "py_eq (JInt x) b = (py_num b = py_num (JInt x))"
| "py_eq (JFloat x) b = (py_num b = py_num (JFloat x))"
| "py_eq (JStr s) b = (b = JStr s)"
| "py_eq (JList xs) b = (case b of JList ys \<Rightarrow> py_eq_list xs ys | _ \<Rightarrow> False)"
| "py_eq (JDict kvs) b =
     (case b of JDict kvs' \<Rightarrow> length kvs = length kvs' \<and> py_eq_dict kvs kvs' | _ \<Rightarrow> False)"
| "py_eq_list [] ys = (ys = [])"
| "py_eq_list (x # xs) ys = (case ys of [] \<Rightarrow> False | y # ys' \<Rightarrow> py_eq x y \<and> py_eq_list xs ys')"
| "py_eq_dict [] kvs' = True"
| "py_eq_dict ((k, v) # kvs) kvs' =
     (case map_of kvs' k of None \<Rightarrow> False | Some v' \<Rightarrow> py_eq v v' \<and> py_eq_dict kvs kvs')"

fun py_get :: "json \<Rightarrow> string \<Rightarrow> json \<Rightarrow> json result" where
  \<comment> \<open>\<open>d.get(k, default)\<close>: only a dict has the method.\<close>
  "py_get (JDict kvs) k d = Inr (case map_of kvs k of Some v \<Rightarrow> v | None \<Rightarrow> d)"
| "py_get _ k d = Inl AttributeError"

fun py_iter :: "json \<Rightarrow> json list result" where
  \<comment> \<open>The values a \<open>for\<close> loop over \<open>v\<close> visits: the keys of a dict, the elements of a
      list, the characters of a str.\<close>
  "py_iter (JDict kvs) = Inr (map (\<lambda>kv. JStr (fst kv)) kvs)"
| "py_iter (JList xs) = Inr xs"
| "py_iter (JStr s) = Inr (map (\<lambda>c. JStr [c]) s)"
| "py_iter _ = Inl TypeError"

definition py_index :: "'a list \<Rightarrow> int \<Rightarrow> 'a result" where
  \<comment> \<open>\<open>xs[i]\<close> on a sequence: \<open>-1\<close> is the last position, \<open>-len(xs)\<close> the first; outside
      of \<open>-len(xs) .. len(xs) - 1\<close> the read raises.\<close>
  "py_index xs i =
     (if 0 \<le> i \<and> i < int (length xs) then Inr (xs ! nat i)
      else if i < 0 \<and> - int (length xs) \<le> i then Inr (xs ! nat (int (length xs) + i))
      else Inl IndexError)"

fun py_getitem :: "json \<Rightarrow> json \<Rightarrow> json result" where
  \<comment> \<open>\<open>v[k]\<close>. A dict with str keys has no entry under a number or \<open>None\<close>, and a list or
      dict is unhashable; a sequence takes an \<open>int\<close> (or \<open>bool\<close>) index.\<close>
  "py_getitem (JDict kvs) (JStr k) = (case map_of kvs k of Some v \<Rightarrow> Inr v | None \<Rightarrow> Inl KeyError)"
| "py_getitem (JDict kvs) (JList _) = Inl TypeError"
| "py_getitem (JDict kvs) (JDict _) = Inl TypeError"
| "py_getitem (JDict kvs) _ = Inl KeyError"
| "py_getitem (JList xs) (JInt i) = py_index xs i"
| "py_getitem (JList xs) (JBool b) = py_index xs (if b then 1 else 0)"
| "py_getitem (JList xs) _ = Inl TypeError"
| "py_getitem (JStr s) (JInt i) = and_then (py_index s i) (\<lambda>c. Inr (JStr [c]))"
| "py_getitem (JStr s) (JBool b) = and_then (py_index s (if b then 1 else 0)) (\<lambda>c. Inr (JStr [c]))"
| "py_getitem (JStr s) _ = Inl TypeError"
| "py_getitem _ _ = Inl TypeError"

fun contains_sub :: "string \<Rightarrow> string \<Rightarrow> bool" where
  \<comment> \<open>\<open>k in s\<close> for two strs: \<open>k\<close> occurs in \<open>s\<close> as a substring.\<close>
  "contains_sub k [] = (k = [])"
| "contains_sub k (c # cs) = (prefix k (c # cs) \<or> contains_sub k cs)"

fun py_in :: "json \<Rightarrow> json \<Rightarrow> bool result" where
  \<comment> \<open>\<open>k in v\<close>: key membership in a dict, element membership in a list, substring in a
      str.\<close>
  "py_in (JList _) (JDict kvs) = Inl TypeError"
| "py_in (JDict _) (JDict kvs) = Inl TypeError"
| "py_in (JStr k) (JDict kvs) = Inr (k \<in> set (map fst kvs))"
| "py_in _ (JDict kvs) = Inr False"
| "py_in k (JList xs) = Inr (list_ex (py_eq k) xs)"
| "py_in (JStr k) (JStr s) = Inr (contains_sub k s)"
| "py_in _ (JStr s) = Inl TypeError"
| "py_in _ _ = Inl TypeError"

definition isdigit :: "char \<Rightarrow> bool" where
  \<comment> \<open>The decimal digits among the code points below 256.\<close>
  "isdigit c = (let n = of_char c :: nat in 48 \<le> n \<and> n \<le> 57)"

definition digit_val :: "char \<Rightarrow> nat" where
  "digit_val c = of_char c - 48"

fun int_digits :: "nat \<Rightarrow> string \<Rightarrow> nat option" where
  \<comment> \<open>The rest of a decimal literal after its first digit: digits, each optionally
      preceded by one underscore.\<close>
  "int_digits acc [] = Some acc"
| "int_digits acc [c] = (if isdigit c then Some (10 * acc + digit_val c) else None)"
| "int_digits acc (c # d # ds) =
     (if c = CHR ''_'' then
        (if isdigit d then int_digits (10 * acc + digit_val d) ds else None)
      else if isdigit c then int_digits (10 * acc + digit_val c) (d # ds)
      else None)"

definition int_of_str :: "string \<Rightarrow> int result" where
  \<comment> \<open>\<open>int(s)\<close> for a str: surrounding whitespace is dropped, one sign is allowed, then a
      decimal literal; anything else is a \<open>ValueError\<close>. (The length limit of recent
      interpreters on the literal is not modelled.)\<close>
  "int_of_str s =
     (let t = strip s;
          neg = (t \<noteq> [] \<and> hd t = CHR ''-'');
          u = (if t \<noteq> [] \<and> (hd t = CHR ''-'' \<or> hd t = CHR ''+'') then tl t else t)
      in case u of
           [] \<Rightarrow> Inl ValueError
         | c # cs \<Rightarrow>
             if isdigit c then
               (case int_digits (digit_val c) cs of
                  None \<Rightarrow> Inl ValueError
                | Some n \<Rightarrow> Inr (if neg then - int n else int n))
             else Inl ValueError)"

fun py_int :: "json \<Rightarrow> int result" where
  \<comment> \<open>\<open>int(v)\<close>: a float is truncated towards zero.\<close>
  "py_int (JInt i) = Inr i"
| "py_int (JBool b) = Inr (if b then 1 else 0)"
| "py_int (JFloat r) = Inr (if 0 \<le> r then \<lfloor>r\<rfloor> else \<lceil>r\<rceil>)"
| "py_int (JStr s) = int_of_str s"
| "py_int _ = Inl TypeError"

fun py_strip :: "json \<Rightarrow> string result" where
  \<comment> \<open>\<open>v.strip()\<close>: only a str has the method.\<close>
  "py_strip (JStr s) = Inr (strip s)"
| "py_strip _ = Inl AttributeError"

fun py_replace :: "json \<Rightarrow> string \<Rightarrow> string \<Rightarrow> string result" where
  \<comment> \<open>\<open>v.replace(old, new)\<close>: only a str has the method.\<close>
  "py_replace (JStr s) old new = Inr (replace old new s)"
| "py_replace _ old new = Inl AttributeError"

fun py_join :: "string \<Rightarrow> json list \<Rightarrow> string result" where
  \<comment> \<open>\<open>sep.join(xs)\<close>: every item has to be a str.\<close>
  "py_join sep [] = Inr []"
| "py_join sep [JStr s] = Inr s"
| "py_join sep (JStr s # x # xs) = and_then (py_join sep (x # xs)) (\<lambda>r. Inr (s @ sep @ r))"
| "py_join sep _ = Inl TypeError"

definition digit_char :: "nat \<Rightarrow> char" where
  "digit_char d = ''0123456789'' ! d"

function str_nat :: "nat \<Rightarrow> string" where
  "str_nat n =
     (if n < 10 then [digit_char n]
      else str_nat (n div 10) @ [digit_char (n mod 10)])"
  by pat_completeness auto
termination
  by (relation "measure id") auto

definition str_int :: "int \<Rightarrow> string" where
  \<comment> \<open>\<open>str(i)\<close>, as an f-string formats an int.\<close>
  "str_int i = (if i < 0 then CHR ''-'' # str_nat (nat (- i)) else str_nat (nat i))"

section \<open>The HTTP client\<close>

text \<open>
  \<open>requests.get(url, params=..., timeout=10)\<close> either raises a \<open>RequestException\<close>
  (timeout, DNS failure, refused connection) or returns a response with a status code
  and a body. \<open>response.json()\<close> returns the parsed body or raises: on a malformed body
  the exception is a \<open>RequestException\<close> for the releases of the library whose
  \<open>JSONDecodeError\<close> derives from it, and a plain \<open>ValueError\<close> for the older ones, so
  the response carries the outcome of \<open>json()\<close>. The network is a function of the
  request; no two calls of one search send the same request. Logging is left out.
\<close>

datatype http_result =
    TransportError
  | Response (status_code: int) (json_body: "json result")

type_synonym request = "string \<times> (string \<times> json) list \<times> nat"

type_synonym net = "request \<Rightarrow> http_result"

definition requests_get :: "net \<Rightarrow> string \<Rightarrow> (string \<times> json) list \<Rightarrow> http_result" where
  "requests_get net url params = net (url, params, 10)"

definition except_RequestException :: "json result \<Rightarrow> json \<Rightarrow> json result" where
  \<comment> \<open>\<open>try: body except requests.RequestException: return handler\<close>; any other
      exception leaves the function.\<close>
  "except_RequestException body handler =
     (case body of Inl RequestException \<Rightarrow> Inr handler | r \<Rightarrow> r)"

section \<open>The source adapters\<close>

definition get_wikipedia_summary :: "net \<Rightarrow> string \<Rightarrow> json result" where
  \<comment> \<open>The term is part of the URL; the call has no query parameters.\<close>
  "get_wikipedia_summary net term =
     except_RequestException
       (case requests_get net (''https://en.wikipedia.org/api/rest_v1/page/summary/'' @ term) [] of
          TransportError \<Rightarrow> Inl RequestException
        | Response status body \<Rightarrow>
            if status = 200 then
              and_then body (\<lambda>data.
              and_then (py_get data ''extract'' (JStr [])) (\<lambda>extract.
                if \<not> truthy extract then
                  and_then (py_get data ''type'' JNull) (\<lambda>ty.
                    if py_eq ty (JStr ''disambiguation'') then
                      Inr (JStr (CHR 0x27 # term @ CHR 0x27 #
                        '' refers to multiple topics. Please try a more specific search term.''))
                    else
                      Inr (JStr ''No summary found. This topic might not have an article on Wikipedia yet.''))
                else Inr extract))
            else if status = 404 then
              Inr (JStr (''The topic '' @ CHR 0x27 # term @ CHR 0x27 #
                '' was not found on Wikipedia. Please check spelling or try another term.''))
            else
              Inr (JStr (''Error retrieving information: HTTP '' @ str_int status)))
       (JStr ''Connection error. Please check your internet connection and try again later.'')"

fun wiktionary_pages :: "json \<Rightarrow> json list \<Rightarrow> json result" where
  \<comment> \<open>The loop \<open>for page_id in pages\<close> of \<open>get_wiktionary_definition\<close>, over the page ids
      still to visit.\<close>
  "wiktionary_pages pages [] = Inr (JStr ''No definition found.'')"
| "wiktionary_pages pages (page_id # rest) =
     and_then (py_getitem pages page_id) (\<lambda>page.
     and_then (py_in (JStr ''extract'') page) (\<lambda>has.
       if has then
         and_then (py_getitem pages page_id) (\<lambda>page. py_getitem page (JStr ''extract''))
       else wiktionary_pages pages rest))"

definition get_wiktionary_definition :: "net \<Rightarrow> string \<Rightarrow> json result" where
  "get_wiktionary_definition net term =
     except_RequestException
       (case requests_get net ''https://en.wiktionary.org/w/api.php''
               [(''action'', JStr ''query''), (''format'', JStr ''json''), (''titles'', JStr term),
                (''prop'', JStr ''extracts''), (''exsectionformat'', JStr ''plain''),
                (''exsentences'', JInt 5), (''explaintext'', JBool True)] of
          TransportError \<Rightarrow> Inl RequestException
        | Response status body \<Rightarrow>
            if status = 200 then
              and_then body (\<lambda>data.
              and_then (py_get data ''query'' (JDict [])) (\<lambda>query.
              and_then (py_get query ''pages'' (JDict [])) (\<lambda>pages.
              and_then (py_iter pages) (\<lambda>ids. wiktionary_pages pages ids))))
            else
              Inr (JStr (''Error retrieving definition: HTTP '' @ str_int status)))
       (JStr ''Connection error. Please try again later.'')"

fun wikiquote_pages :: "json \<Rightarrow> json list \<Rightarrow> json result" where
  \<comment> \<open>The loop of \<open>get_wikiquote_quotes\<close>: a page counts when its id is positive, it has
      an extract and the stripped extract is not empty.\<close>
  "wikiquote_pages pages [] = Inr (JStr ''No quotes found for this topic.'')"
| "wikiquote_pages pages (page_id # rest) =
     and_then (py_int page_id) (\<lambda>n.
       if n > 0 then
         and_then (py_getitem pages page_id) (\<lambda>page.
         and_then (py_in (JStr ''extract'') page) (\<lambda>has.
           if has then
             and_then (py_getitem pages page_id) (\<lambda>page.
             and_then (py_getitem page (JStr ''extract'')) (\<lambda>extract.
             and_then (py_strip extract) (\<lambda>content.
               if content \<noteq> [] then Inr (JStr content)
               else wikiquote_pages pages rest)))
           else wikiquote_pages pages rest))
       else wikiquote_pages pages rest)"

definition get_wikiquote_quotes :: "net \<Rightarrow> string \<Rightarrow> json result" where
  "get_wikiquote_quotes net term =
     except_RequestException
       (case requests_get net ''https://en.wikiquote.org/w/api.php''
               [(''action'', JStr ''query''), (''format'', JStr ''json''), (''titles'', JStr term),
                (''prop'', JStr ''extracts''), (''exsentences'', JInt 5),
                (''explaintext'', JBool True)] of
          TransportError \<Rightarrow> Inl RequestException
        | Response status body \<Rightarrow>
            if status = 200 then
              and_then body (\<lambda>data.
              and_then (py_get data ''query'' (JDict [])) (\<lambda>query.
              and_then (py_get query ''pages'' (JDict [])) (\<lambda>pages.
              and_then (py_iter pages) (\<lambda>ids. wikiquote_pages pages ids))))
            else
              Inr (JStr (''Error retrieving quotes: HTTP '' @ str_int status)))
       (JStr ''Connection error. Please try again later.'')"

fun extract_pages :: "string \<Rightarrow> json \<Rightarrow> json list \<Rightarrow> json result" where
  \<comment> \<open>The loop that \<open>get_wikibooks_content\<close>, \<open>get_wikiversity_resources\<close> and
      \<open>get_wikispecies_info\<close> share word for word but for the message returned after
      it: the extract of the first page with a positive id and an extract.\<close>
  "extract_pages none pages [] = Inr (JStr none)"
| "extract_pages none pages (page_id # rest) =
     and_then (py_int page_id) (\<lambda>n.
       if n > 0 then
         and_then (py_getitem pages page_id) (\<lambda>page.
         and_then (py_in (JStr ''extract'') page) (\<lambda>has.
           if has then
             and_then (py_getitem pages page_id) (\<lambda>page. py_getitem page (JStr ''extract''))
           else extract_pages none pages rest))
       else extract_pages none pages rest)"

definition get_wikibooks_content :: "net \<Rightarrow> string \<Rightarrow> json result" where
  "get_wikibooks_content net term =
     except_RequestException
       (case requests_get net ''https://en.wikibooks.org/w/api.php''
               [(''action'', JStr ''query''), (''format'', JStr ''json''), (''titles'', JStr term),
                (''prop'', JStr ''extracts''), (''exsentences'', JInt 10),
                (''explaintext'', JBool True)] of
          TransportError \<Rightarrow> Inl RequestException
        | Response status body \<Rightarrow>
            if status = 200 then
              and_then body (\<lambda>data.
              and_then (py_get data ''query'' (JDict [])) (\<lambda>query.
              and_then (py_get query ''pages'' (JDict [])) (\<lambda>pages.
              and_then (py_iter pages) (\<lambda>ids.
                extract_pages ''No Wikibooks content found for this topic.'' pages ids))))
            else
              Inr (JStr (''Error retrieving content: HTTP '' @ str_int status)))
       (JStr ''Connection error. Please try again later.'')"

definition get_wikiversity_resources :: "net \<Rightarrow> string \<Rightarrow> json result" where
  "get_wikiversity_resources net term =
     except_RequestException
       (case requests_get net ''https://en.wikiversity.org/w/api.php''
               [(''action'', JStr ''query''), (''format'', JStr ''json''), (''titles'', JStr term),
                (''prop'', JStr ''extracts''), (''exsentences'', JInt 5),
                (''explaintext'', JBool True)] of
          TransportError \<Rightarrow> Inl RequestException
        | Response status body \<Rightarrow>
            if status = 200 then
              and_then body (\<lambda>data.
              and_then (py_get data ''query'' (JDict [])) (\<lambda>query.
              and_then (py_get query ''pages'' (JDict [])) (\<lambda>pages.
              and_then (py_iter pages) (\<lambda>ids.
                extract_pages ''No Wikiversity resources found for this topic.'' pages ids))))
            else
              Inr (JStr (''Error retrieving resources: HTTP '' @ str_int status)))
       (JStr ''Connection error. Please try again later.'')"

definition get_wikispecies_info :: "net \<Rightarrow> string \<Rightarrow> json result" where
  "get_wikispecies_info net species_name =
     except_RequestException
       (case requests_get net ''https://species.wikimedia.org/w/api.php''
               [(''action'', JStr ''query''), (''format'', JStr ''json''),
                (''titles'', JStr species_name), (''prop'', JStr ''extracts''),
                (''explaintext'', JBool True)] of
          TransportError \<Rightarrow> Inl RequestException
        | Response status body \<Rightarrow>
            if status = 200 then
              and_then body (\<lambda>data.
              and_then (py_get data ''query'' (JDict [])) (\<lambda>query.
              and_then (py_get query ''pages'' (JDict [])) (\<lambda>pages.
              and_then (py_iter pages) (\<lambda>ids.
                extract_pages ''No species information found.'' pages ids))))
            else
              Inr (JStr (''Error retrieving species information: HTTP '' @ str_int status)))
       (JStr ''Connection error. Please try again later.'')"

fun commons_titles :: "json list \<Rightarrow> json list \<Rightarrow> json list result" where
  \<comment> \<open>The first loop of \<open>get_wikimedia_commons_images\<close>: the titles of the search hits
      that have one, appended to \<open>image_titles\<close>.\<close>
  "commons_titles [] image_titles = Inr image_titles"
| "commons_titles (result # rest) image_titles =
     and_then (py_in (JStr ''title'') result) (\<lambda>has.
       if has then
         and_then (py_getitem result (JStr ''title'')) (\<lambda>t.
           commons_titles rest (image_titles @ [t]))
       else commons_titles rest image_titles)"

fun commons_pages :: "json \<Rightarrow> json list \<Rightarrow> json list \<Rightarrow> json list result" where
  \<comment> \<open>The second loop: one descriptor for every page with image info and a truthy
      thumbnail URL, appended to \<open>image_data\<close>.\<close>
  "commons_pages pages [] image_data = Inr image_data"
| "commons_pages pages (page_id # rest) image_data =
     and_then (py_getitem pages page_id) (\<lambda>page.
     and_then (py_in (JStr ''imageinfo'') page) (\<lambda>has.
     and_then (if has then and_then (py_getitem page (JStr ''imageinfo'')) (\<lambda>ii. Inr (truthy ii))
               else Inr False) (\<lambda>cond.
       if cond then
         and_then (py_getitem page (JStr ''imageinfo'')) (\<lambda>ii.
         and_then (py_getitem ii (JInt 0)) (\<lambda>info.
         and_then (py_get page ''title'' (JStr [])) (\<lambda>t.
         and_then (py_replace t ''File:'' []) (\<lambda>title.
         and_then (py_get info ''thumburl'' (JStr [])) (\<lambda>thumb_url.
         and_then (py_get info ''extmetadata'' (JDict [])) (\<lambda>extmetadata.
         and_then (py_get extmetadata ''ImageDescription'' (JDict [])) (\<lambda>image_description.
         and_then (py_get image_description ''value'' (JStr [])) (\<lambda>d.
         and_then (py_replace d ''<p>'' []) (\<lambda>d'.
         and_then (py_replace (JStr d') ''</p>'' []) (\<lambda>description.
           commons_pages pages rest
             (if truthy thumb_url then
                image_data @ [JDict [(''title'', JStr title), (''url'', thumb_url),
                                     (''description'', JStr description)]]
              else image_data)))))))))))
       else commons_pages pages rest image_data)))"

definition image_params :: "string \<Rightarrow> (string \<times> json) list" where
  \<comment> \<open>The dict \<open>image_params\<close> of the second call.\<close>
  "image_params file_titles =
     [(''action'', JStr ''query''), (''format'', JStr ''json''), (''titles'', JStr file_titles),
      (''prop'', JStr ''imageinfo''), (''iiprop'', JStr ''url|extmetadata''),
      (''iiurlwidth'', JInt 300)]"

definition commons_image_data :: "net \<Rightarrow> json list \<Rightarrow> json list result" where
  \<comment> \<open>The statements of \<open>get_wikimedia_commons_images\<close> from \<open>image_data = []\<close> up to
      \<open>return image_data\<close>: the second call, made when there are titles, and the loop
      over its pages; \<open>image_data\<close> stays empty when that call has another status than
      200.\<close>
  "commons_image_data net image_titles =
     (if image_titles \<noteq> [] then
        and_then (py_join ''|'' image_titles) (\<lambda>file_titles.
          case requests_get net ''https://commons.wikimedia.org/w/api.php''
                 (image_params file_titles) of
            TransportError \<Rightarrow> Inl RequestException
          | Response img_status img_body \<Rightarrow>
              if img_status = 200 then
                and_then img_body (\<lambda>img_data.
                and_then (py_get img_data ''query'' (JDict [])) (\<lambda>img_query.
                and_then (py_get img_query ''pages'' (JDict [])) (\<lambda>pages.
                and_then (py_iter pages) (\<lambda>ids. commons_pages pages ids []))))
              else Inr [])
      else Inr [])"

definition commons_params :: "string \<Rightarrow> int \<Rightarrow> (string \<times> json) list" where
  \<comment> \<open>The dict \<open>params\<close> of the first call: a search in the file namespace for files
      that depict the term.\<close>
  "commons_params term limit =
     [(''action'', JStr ''query''), (''format'', JStr ''json''), (''list'', JStr ''search''),
      (''srsearch'', JStr (term @ '' haswbstatement:P180='' @ term)),
      (''srnamespace'', JInt 6), (''srlimit'', JInt limit)]"

definition get_wikimedia_commons_images :: "net \<Rightarrow> string \<Rightarrow> int \<Rightarrow> json result" where
  "get_wikimedia_commons_images net term limit =
     except_RequestException
       (case requests_get net ''https://commons.wikimedia.org/w/api.php''
               (commons_params term limit) of
          TransportError \<Rightarrow> Inl RequestException
        | Response status body \<Rightarrow>
            if status = 200 then
              and_then body (\<lambda>data.
              and_then (py_get data ''query'' (JDict [])) (\<lambda>query.
              and_then (py_get query ''search'' (JList [])) (\<lambda>search_results.
              and_then (py_iter search_results) (\<lambda>results.
              and_then (commons_titles results []) (\<lambda>image_titles.
              and_then (commons_image_data net image_titles) (\<lambda>image_data.
                Inr (JList image_data)))))))
            else Inr (JList []))
       (JList [])"



definition property_map :: "(string \<times> string) list" where
  \<comment> \<open>The allow-list of \<open>get_wikidata_health_info\<close>, in the order \<open>items()\<close> visits it.\<close>
  "property_map =
     [(''P2175'', ''medical condition treated''),
      (''P2176'', ''drug used for treatment''),
      (''P780'', ''symptoms''),
      (''P1050'', ''medical condition''),
      (''P1995'', ''health specialty'')]"

fun wikidata_values :: "json list \<Rightarrow> json list \<Rightarrow> json list result" where
  \<comment> \<open>The loop \<open>for claim in claims[prop_id]\<close>: the ids of the claims whose main snak is
      a wikibase item with a data value, appended to \<open>values\<close>.\<close>
  "wikidata_values [] values = Inr values"
| "wikidata_values (claim # rest) values =
     and_then (py_get claim ''mainsnak'' (JDict [])) (\<lambda>mainsnak.
     and_then (py_get mainsnak ''datatype'' JNull) (\<lambda>datatype.
     and_then (if py_eq datatype (JStr ''wikibase-item'') then py_in (JStr ''datavalue'') mainsnak
               else Inr False) (\<lambda>cond.
       if cond then
         and_then (py_getitem mainsnak (JStr ''datavalue'')) (\<lambda>datavalue.
         and_then (py_getitem datavalue (JStr ''value'')) (\<lambda>v.
         and_then (py_getitem v (JStr ''id'')) (\<lambda>value_id.
           wikidata_values rest (values @ [value_id]))))
       else wikidata_values rest values)))"

fun wikidata_properties ::
  "json \<Rightarrow> (string \<times> string) list \<Rightarrow> (string \<times> json) list \<Rightarrow> (string \<times> json) list result" where
  \<comment> \<open>The loop \<open>for prop_id, prop_name in property_map.items()\<close>, building
      \<open>properties\<close>.\<close>
  "wikidata_properties claims [] properties = Inr properties"
| "wikidata_properties claims ((prop_id, prop_name) # rest) properties =
     and_then (py_in (JStr prop_id) claims) (\<lambda>has.
       if has then
         and_then (py_getitem claims (JStr prop_id)) (\<lambda>cs.
         and_then (py_iter cs) (\<lambda>claim_list.
         and_then (wikidata_values claim_list []) (\<lambda>values.
           wikidata_properties claims rest
             (if values \<noteq> [] then AList.update prop_name (JList values) properties
              else properties))))
       else wikidata_properties claims rest properties)"

definition entity_params :: "json \<Rightarrow> (string \<times> json) list" where
  \<comment> \<open>The dict \<open>entity_params\<close> of the second call.\<close>
  "entity_params entity_id =
     [(''action'', JStr ''wbgetentities''), (''format'', JStr ''json''), (''ids'', entity_id),
      (''languages'', JStr ''en'')]"

definition wikidata_entity :: "net \<Rightarrow> json \<Rightarrow> json result" where
  \<comment> \<open>The statements of \<open>get_wikidata_health_info\<close> after \<open>entity_id\<close> is known: the
      second call and what is made of its answer. The fallback message is returned when
      that call has another status than 200 and when the entity is not in its answer.\<close>
  "wikidata_entity net entity_id =
     (case requests_get net ''https://www.wikidata.org/w/api.php'' (entity_params entity_id) of
        TransportError \<Rightarrow> Inl RequestException
      | Response entity_status entity_body \<Rightarrow>
          if entity_status = 200 then
            and_then entity_body (\<lambda>entity_data.
            and_then (py_get entity_data ''entities'' (JDict [])) (\<lambda>entities.
            and_then (py_in entity_id entities) (\<lambda>found.
              if found then
                and_then (py_getitem entities entity_id) (\<lambda>entity.
                and_then (py_get entity ''labels'' (JDict [])) (\<lambda>labels.
                and_then (py_get labels ''en'' (JDict [])) (\<lambda>label_en.
                and_then (py_get label_en ''value'' (JStr ''No label'')) (\<lambda>label.
                and_then (py_get entity ''descriptions'' (JDict [])) (\<lambda>descriptions.
                and_then (py_get descriptions ''en'' (JDict [])) (\<lambda>description_en.
                and_then (py_get description_en ''value'' (JStr ''No description''))
                  (\<lambda>description.
                and_then (py_get entity ''claims'' (JDict [])) (\<lambda>claims.
                and_then (wikidata_properties claims property_map []) (\<lambda>properties.
                  Inr (JDict [(''label'', label), (''description'', description),
                              (''properties'', JDict properties)]))))))))))
              else
                Inr (JStr ''No detailed Wikidata information available.''))))
          else
            Inr (JStr ''No detailed Wikidata information available.''))"

definition get_wikidata_health_info :: "net \<Rightarrow> string \<Rightarrow> json result" where
  "get_wikidata_health_info net term =
     except_RequestException
       (case requests_get net ''https://www.wikidata.org/w/api.php''
               [(''action'', JStr ''wbsearchentities''), (''format'', JStr ''json''),
                (''search'', JStr term), (''language'', JStr ''en'')] of
          TransportError \<Rightarrow> Inl RequestException
        | Response status body \<Rightarrow>
            if status = 200 then
              and_then body (\<lambda>data.
              and_then (py_get data ''search'' (JList [])) (\<lambda>search_results.
                if \<not> truthy search_results then
                  Inr (JStr ''No Wikidata information found for this term.'')
                else
                  and_then (py_getitem search_results (JInt 0)) (\<lambda>first.
                  and_then (py_get first ''id'' JNull) (\<lambda>entity_id.
                    wikidata_entity net entity_id))))
            else
              Inr (JStr (''Error retrieving Wikidata: HTTP '' @ str_int status)))
       (JStr ''Connection error. Please try again later.'')"

section \<open>The aggregation\<close>



section \<open>The answer extractor\<close>

text \<open>
  The question-answering pipeline is a callable of the \<open>transformers\<close> library: a call
  either raises an exception (kept as its message, \<open>str(e)\<close>) or returns a value. A call
  is recorded as the arguments it was made with: question, context, \<open>max_answer_len\<close>
  and \<open>handle_impossible_answer\<close>. The function returns the calls it made next to its
  result.
\<close>

type_synonym qa_call = "string \<times> string \<times> int \<times> bool"

datatype scorer_outcome =
    Raises string
  | Returns json

type_synonym scorer = "qa_call \<Rightarrow> scorer_outcome"

definition load_qa_pipeline ::
  "bool \<Rightarrow> (string \<Rightarrow> string \<Rightarrow> string + scorer) \<Rightarrow> scorer option" where
  \<comment> \<open>\<open>None\<close> when the library is not installed or the constructor raises.\<close>
  "load_qa_pipeline ai_available pipeline =
     (if \<not> ai_available then None
      else case pipeline ''question-answering'' ''distilbert-base-cased-distilled-squad'' of
             Inl e \<Rightarrow> None
           | Inr p \<Rightarrow> Some p)"

fun type_name :: "json \<Rightarrow> string" where
  \<comment> \<open>\<open>type(v).__name__\<close>, as the interpreter's error messages print it.\<close>
  "type_name JNull = ''NoneType''"
| "type_name (JBool _) = ''bool''"
| "type_name (JInt _) = ''int''"
| "type_name (JFloat _) = ''float''"
| "type_name (JStr _) = ''str''"
| "type_name (JList _) = ''list''"
| "type_name (JDict _) = ''dict''"

definition float_0_1 :: rat where
  \<comment> \<open>The value of the literal \<open>0.1\<close>: the double nearest to one tenth.\<close>
  "float_0_1 = 3602879701896397 / 36028797018963968"

definition result_get :: "json \<Rightarrow> string \<Rightarrow> json \<Rightarrow> string + json" where
  \<comment> \<open>\<open>result.get(k, default)\<close> inside the \<open>try\<close>: the \<open>AttributeError\<close> of a value
      that is no dict, as its message.\<close>
  "result_get v k d =
     (case py_get v k d of
        Inr x \<Rightarrow> Inr x
      | Inl e \<Rightarrow> Inl (CHR 0x27 # type_name v @ CHR 0x27 # '' object has no attribute '' @
                       CHR 0x27 # ''get'' @ [CHR 0x27]))"

definition lt_float :: "json \<Rightarrow> rat \<Rightarrow> string + bool" where
  \<comment> \<open>\<open>v < x\<close> for a float \<open>x\<close>: numbers compare by value, anything else is a
      \<open>TypeError\<close>.\<close>
  "lt_float v x =
     (case py_num v of
        Some r \<Rightarrow> Inr (r < x)
      | None \<Rightarrow> Inl (CHR 0x27 # ''<'' @ CHR 0x27 # '' not supported between instances of '' @
                       CHR 0x27 # type_name v @ CHR 0x27 # '' and '' @
                       CHR 0x27 # ''float'' @ [CHR 0x27]))"

definition result_item :: "json \<Rightarrow> string \<Rightarrow> string + json" where
  \<comment> \<open>\<open>result[k]\<close> for the dict that \<open>result.get\<close> has already accepted: the
      \<open>KeyError\<close> of a missing key prints as the quoted key.\<close>
  "result_item v k =
     (case py_getitem v (JStr k) of
        Inr x \<Rightarrow> Inr x
      | Inl e \<Rightarrow> Inl (CHR 0x27 # k @ [CHR 0x27]))"

definition unavailable_message :: string where
  "unavailable_message =
     ''AI model is not available. Please check if transformers and torch are installed correctly.''"

definition rejection_message :: string where
  "rejection_message = ''Please ask a more specific question.''"

definition refusal_message :: string where
  "refusal_message = ''I don'' @ CHR 0x27 # ''t have enough information to answer that question accurately. Please try a different question related to the topics covered.''"

definition answer_health_question ::
  "scorer option \<Rightarrow> string \<Rightarrow> string \<Rightarrow> qa_call list \<times> json" where
  "answer_health_question qa_pipeline question context =
     (case qa_pipeline of
        None \<Rightarrow> ([], JStr unavailable_message)
      | Some pipeline \<Rightarrow>
          if length question < 5 then ([], JStr rejection_message)
          else
            ([(question, context, 100, True)],
             case (case pipeline (question, context, 100, True) of
                     Raises msg \<Rightarrow> Inl msg
                   | Returns result \<Rightarrow>
                       and_then (result_get result ''score'' (JInt 0)) (\<lambda>score.
                       and_then (lt_float score float_0_1) (\<lambda>low.
                         if low then Inr (JStr refusal_message)
                         else result_item result ''answer''))) of
               Inr v \<Rightarrow> v
             | Inl msg \<Rightarrow>
                 JStr (''Sorry, I couldn'' @ CHR 0x27 #
                       ''t process your question. Error: '' @ msg)))"

definition on_float_grid :: "rat \<Rightarrow> bool" where
  \<comment> \<open>An integer multiple of \<open>2\<^sup>-\<^sup>5\<^sup>6\<close>. With a significand of 53 bits every double
      of magnitude at least \<open>2\<^sup>-\<^sup>4\<close> is one, so every double not below one tenth.\<close>
  "on_float_grid r = (of_int \<lfloor>r * 2 ^ 56\<rfloor> = r * 2 ^ 56)"

section \<open>Networks and responses for the examples\<close>

definition always :: "http_result \<Rightarrow> net" where
  \<comment> \<open>The network that answers every request alike.\<close>
  "always r = (\<lambda>req. r)"

definition search_then :: "http_result \<Rightarrow> http_result \<Rightarrow> net" where
  \<comment> \<open>The network that answers a search request (\<open>list=search\<close> or
      \<open>action=wbsearchentities\<close>) with \<open>first\<close> and every other request with \<open>second\<close>.\<close>
  "search_then first second =
     (\<lambda>(url, params, timeout).
        if map_of params ''list'' = Some (JStr ''search'')
           \<or> map_of params ''action'' = Some (JStr ''wbsearchentities'')
        then first else second)"

definition call_failed :: "http_result \<Rightarrow> bool" where
  \<comment> \<open>A call that failed: a transport error, or a status other than 200.\<close>
  "call_failed r = (case r of TransportError \<Rightarrow> True | Response status body \<Rightarrow> status \<noteq> 200)"

definition pages_body :: "(string \<times> json) list \<Rightarrow> json" where
  \<comment> \<open>The body \<open>{"query": {"pages": {...}}}\<close>.\<close>
  "pages_body pages = JDict [(''query'', JDict [(''pages'', JDict pages)])]"



definition apple_hits :: http_result where
  \<comment> \<open>A file search with two hits.\<close>
  "apple_hits = Response 200 (Inr (JDict [(''query'', JDict [(''search'', JList
     [JDict [(''title'', JStr ''File:Apple.jpg'')], JDict [(''title'', JStr ''File:Pear.jpg'')]])])]))"

definition apple_pages :: http_result where
  \<comment> \<open>The image info of the two files: the first with a thumbnail, the second without.\<close>
  "apple_pages = Response 200 (Inr (pages_body
     [(''11'', JDict [(''title'', JStr ''File:Apple.jpg''), (''imageinfo'', JList
         [JDict [(''thumburl'', JStr ''https://upload.example/300px-Apple.jpg''),
                 (''extmetadata'', JDict [(''ImageDescription'',
                    JDict [(''value'', JStr ''<p>An apple</p>'')])])]])]),
      (''12'', JDict [(''title'', JStr ''File:Pear.jpg''), (''imageinfo'', JList
         [JDict [(''url'', JStr ''https://upload.example/Pear.jpg'')]])])]))"

section \<open>Term normalisation\<close>

lemma replace_char:
  "replace [a] [b] s = map (\<lambda>c. if c = a then b else c) s"
  by (induction s) auto

lemma dropWhile_hd: "xs \<noteq> [] \<Longrightarrow> \<not> P (hd xs) \<Longrightarrow> dropWhile P xs = xs"
  by (cases xs) auto

lemma strip_id:
  assumes "s = [] \<or> (\<not> isspace (hd s) \<and> \<not> isspace (last s))"
  shows "strip s = s"
proof (cases "s = []")
  case True
  then show ?thesis by (simp add: strip_def)
next
  case False
  with assms have h: "\<not> isspace (hd s)" and l: "\<not> isspace (last s)" by blast+
  from False h have d: "dropWhile isspace s = s" by (rule dropWhile_hd)
  from False have "rev s \<noteq> []" by simp
  moreover from False l have "\<not> isspace (hd (rev s))" by (simp add: hd_rev)
  ultimately have "dropWhile isspace (rev s) = rev s" by (rule dropWhile_hd)
  with d show ?thesis by (simp only: strip_def rev_rev_ident)
qed

lemma last_dropWhile: "dropWhile P xs \<noteq> [] \<Longrightarrow> last (dropWhile P xs) = last xs"
  by (induction xs) (auto split: if_splits)

lemma strip_ends:
  "strip s = [] \<or> (\<not> isspace (hd (strip s)) \<and> \<not> isspace (last (strip s)))"
proof -
  let ?d = "dropWhile isspace s"
  let ?e = "dropWhile isspace (rev ?d)"
  show ?thesis
  proof (cases "?e = []")
    case True
    then show ?thesis by (simp add: strip_def)
  next
    case False
    then have l: "\<not> isspace (hd ?e)" by (simp add: hd_dropWhile)
    have dne: "?d \<noteq> []"
    proof
      assume "?d = []"
      then have "?e = []" by (simp only: rev.simps dropWhile.simps)
      with False show False by contradiction
    qed
    have hd: "\<not> isspace (hd ?d)" using dne by (simp add: hd_dropWhile)
    have "last ?e = last (rev ?d)"
      using False by (rule last_dropWhile)
    then have "\<not> isspace (last ?e)" using dne hd by (simp add: last_rev)
    with l False show ?thesis by (simp add: strip_def hd_rev last_rev)
  qed
qed

lemma not_isspace_underscore: "\<not> isspace CHR ''_''"
  by (simp add: isspace_def)

lemma norm_map: "normalize_term t = map (\<lambda>c. if c = CHR '' '' then CHR ''_'' else c) (strip t)"
  unfolding normalize_term_def by (rule replace_char)

lemma map_us_ends:
  assumes "s = [] \<or> (\<not> isspace (hd s) \<and> \<not> isspace (last s))"
  shows "map (\<lambda>c. if c = CHR '' '' then CHR ''_'' else c) s = [] \<or>
    (\<not> isspace (hd (map (\<lambda>c. if c = CHR '' '' then CHR ''_'' else c) s)) \<and>
     \<not> isspace (last (map (\<lambda>c. if c = CHR '' '' then CHR ''_'' else c) s)))"
proof (cases "s = []")
  case True
  then show ?thesis by simp
next
  case False
  with assms have "\<not> isspace (hd s)" "\<not> isspace (last s)" by blast+
  with False show ?thesis
    by (simp add: hd_map last_map not_isspace_underscore)
qed

text \<open>
  C8: term normalisation (strip the surrounding whitespace, then replace each space by an
  underscore) is idempotent: normalising a normalised term gives the same term.
\<close>

theorem normalize_term_idempotent:
  "normalize_term (normalize_term t) = normalize_term t"
proof -
  let ?f = "\<lambda>c. if c = CHR '' '' then CHR ''_'' else c"
  let ?u = "map ?f (strip t)"
  have "strip ?u = ?u"
    by (rule strip_id, rule map_us_ends, rule strip_ends)
  moreover have "map ?f ?u = ?u" by simp
  ultimately have "map ?f (strip ?u) = ?u" by (simp only:)
  then show ?thesis by (simp only: norm_map)
qed

section \<open>The answer extractor: availability, validation, confidence gate\<close>

text \<open>
  C9: when the pipeline failed to load (the scorer instance is \<open>None\<close>),
  \<open>answer_health_question\<close> returns the unavailable-model message for every question and
  context, also for a question shorter than 5 characters: the check comes before the
  validation of the input, so the rejection message is never the answer in that state.
  \<open>load_qa_pipeline\<close> gives \<open>None\<close> when the library is missing and when the constructor
  raises.
\<close>

theorem unavailable_precedes_validation:
  "answer_health_question None question context = ([], JStr unavailable_message)
   \<and> snd (answer_health_question None question context) \<noteq> JStr rejection_message
   \<and> load_qa_pipeline False pipeline = None
   \<and> load_qa_pipeline True (\<lambda>task model. Inl e) = None"
  by (simp add: answer_health_question_def load_qa_pipeline_def unavailable_message_def
      rejection_message_def)

text \<open>
  C4: with the scorer loaded, a question shorter than 5 characters gets the rejection
  message "Please ask a more specific question." whatever the context, and the scorer is
  not called: the list of calls made is empty.
\<close>

theorem short_question_rejected:
  assumes "length question < 5"
  shows "answer_health_question (Some pipeline) question context = ([], JStr rejection_message)"
  using assms by (simp add: answer_health_question_def)

theorem short_question_rejected_witness:
  "length ''BMI?'' < 5 \<and>
   answer_health_question (Some (\<lambda>call. Returns (JDict [(''score'', JFloat 1), (''answer'', JStr ''x'')])))
     ''BMI?'' ''Body mass index.'' = ([], JStr rejection_message)"
  using short_question_rejected [of "''BMI?''"] by simp

lemma tenth_below_float_0_1: "1 / 10 < float_0_1"
  by (simp add: float_0_1_def)

lemma grid_ge_tenth:
  assumes "on_float_grid s" and "1 / 10 \<le> s"
  shows "float_0_1 \<le> s"
proof -
  define k where "k = \<lfloor>s * 2 ^ 56\<rfloor>"
  have "of_int k = s * 2 ^ 56"
    unfolding k_def using assms(1) [unfolded on_float_grid_def] .
  then have sk: "s * 72057594037927936 = of_int k" by simp
  from assms(2) have "1 \<le> 10 * s" by simp
  with sk have "(72057594037927936 :: rat) \<le> 10 * of_int k" by linarith
  then have "(of_int 72057594037927936 :: rat) \<le> of_int (10 * k)" by simp
  then have "(72057594037927936 :: int) \<le> 10 * k" by (simp only: of_int_le_iff)
  then have "(7205759403792794 :: int) \<le> k" by arith
  then have "(of_int 7205759403792794 :: rat) \<le> of_int k" by (simp only: of_int_le_iff)
  then have "(7205759403792794 :: rat) \<le> of_int k" by simp
  with sk have "(3602879701896397 :: rat) / 36028797018963968 \<le> s" by linarith
  then show ?thesis by (simp only: float_0_1_def)
qed

text \<open>
  C3: when the scorer runs (the question has at least 5 characters and the call returns a
  dict with a float score), a score below 0.1 gives the low-confidence refusal, whether
  or not a span was extracted; a score of at least 0.1 gives the extracted span as it is.
  The score is a double, the threshold the double nearest to one tenth: no double lies
  between one tenth and that threshold, which is what \<open>on_float_grid\<close> states.
\<close>

theorem confidence_gate:
  assumes "5 \<le> length question"
    and "pipeline (question, context, 100, True) = Returns (JDict result)"
    and "map_of result ''score'' = Some (JFloat score)"
  shows "(score < 1 / 10 \<longrightarrow>
            snd (answer_health_question (Some pipeline) question context) = JStr refusal_message)
       \<and> (1 / 10 \<le> score \<and> on_float_grid score \<and> map_of result ''answer'' = Some answer \<longrightarrow>
            snd (answer_health_question (Some pipeline) question context) = answer)"
proof (intro conjI impI)
  assume "score < 1 / 10"
  then have "score < float_0_1" using tenth_below_float_0_1 by simp
  then show "snd (answer_health_question (Some pipeline) question context) = JStr refusal_message"
    using assms
    by (simp add: answer_health_question_def and_then_def result_get_def lt_float_def)
next
  assume a: "1 / 10 \<le> score \<and> on_float_grid score \<and> map_of result ''answer'' = Some answer"
  then have "\<not> score < float_0_1" using grid_ge_tenth [of score] by simp
  then show "snd (answer_health_question (Some pipeline) question context) = answer"
    using assms a
    by (simp add: answer_health_question_def and_then_def result_get_def lt_float_def
        result_item_def)
qed

theorem confidence_gate_witness:
  "snd (answer_health_question
         (Some (\<lambda>call. Returns (JDict [(''score'', JFloat (1 / 20)), (''answer'', JStr ''Smoking'')])))
         ''What kills?'' ''Smoking is the leading cause of preventable death worldwide.'')
     = JStr refusal_message
   \<and> snd (answer_health_question
         (Some (\<lambda>call. Returns (JDict [(''score'', JFloat (7 / 8)), (''answer'', JStr ''Smoking'')])))
         ''What kills?'' ''Smoking is the leading cause of preventable death worldwide.'')
     = JStr ''Smoking''"
  using
    confidence_gate [of "''What kills?''"
      "\<lambda>call. Returns (JDict [(''score'', JFloat (1 / 20)), (''answer'', JStr ''Smoking'')])"
      "''Smoking is the leading cause of preventable death worldwide.''"
      "[(''score'', JFloat (1 / 20)), (''answer'', JStr ''Smoking'')]" "1 / 20" "JStr ''Smoking''"]
    confidence_gate [of "''What kills?''"
      "\<lambda>call. Returns (JDict [(''score'', JFloat (7 / 8)), (''answer'', JStr ''Smoking'')])"
      "''Smoking is the leading cause of preventable death worldwide.''"
      "[(''score'', JFloat (7 / 8)), (''answer'', JStr ''Smoking'')]" "7 / 8" "JStr ''Smoking''"]
  by (simp add: on_float_grid_def)


section \<open>The adapters on a failed call\<close>

lemma except_transport [simp]:
  "except_RequestException (Inl RequestException) h = Inr h"
  by (simp add: except_RequestException_def)

lemma except_return [simp]:
  "except_RequestException (Inr v) h = Inr v"
  by (simp add: except_RequestException_def)


lemma requests_get_always [simp]: "requests_get (always r) url params = r"
  by (simp add: requests_get_def always_def)

lemma and_then_Inl [simp]: "and_then (Inl e) f = Inl e"
  by (simp add: and_then_def)

lemma and_then_Inr [simp]: "and_then (Inr v) f = f v"
  by (simp add: and_then_def)

lemma text_adapters_on_status:
  assumes "status \<noteq> 200"
  shows "get_wikipedia_summary (always (Response status body)) term =
           Inr (JStr (if status = 404
              then ''The topic '' @ CHR 0x27 # term @ CHR 0x27 #
                   '' was not found on Wikipedia. Please check spelling or try another term.''
              else ''Error retrieving information: HTTP '' @ str_int status))"
    and "get_wiktionary_definition (always (Response status body)) term =
           Inr (JStr (''Error retrieving definition: HTTP '' @ str_int status))"
    and "get_wikiquote_quotes (always (Response status body)) term =
           Inr (JStr (''Error retrieving quotes: HTTP '' @ str_int status))"
    and "get_wikibooks_content (always (Response status body)) term =
           Inr (JStr (''Error retrieving content: HTTP '' @ str_int status))"
    and "get_wikiversity_resources (always (Response status body)) term =
           Inr (JStr (''Error retrieving resources: HTTP '' @ str_int status))"
    and "get_wikispecies_info (always (Response status body)) term =
           Inr (JStr (''Error retrieving species information: HTTP '' @ str_int status))"
    and "get_wikidata_health_info (always (Response status body)) term =
           Inr (JStr (''Error retrieving Wikidata: HTTP '' @ str_int status))"
  using assms
  by (simp_all add: get_wikipedia_summary_def get_wiktionary_definition_def
      get_wikiquote_quotes_def get_wikibooks_content_def get_wikiversity_resources_def
      get_wikispecies_info_def get_wikidata_health_info_def)


lemma text_adapters_on_RequestException:
  assumes "r = TransportError \<or> r = Response 200 (Inl RequestException)"
  shows "get_wikipedia_summary (always r) term =
           Inr (JStr ''Connection error. Please check your internet connection and try again later.'')"
    and "get_wiktionary_definition (always r) term = Inr (JStr ''Connection error. Please try again later.'')"
    and "get_wikiquote_quotes (always r) term = Inr (JStr ''Connection error. Please try again later.'')"
    and "get_wikibooks_content (always r) term = Inr (JStr ''Connection error. Please try again later.'')"
    and "get_wikiversity_resources (always r) term = Inr (JStr ''Connection error. Please try again later.'')"
    and "get_wikispecies_info (always r) term = Inr (JStr ''Connection error. Please try again later.'')"
    and "get_wikidata_health_info (always r) term = Inr (JStr ''Connection error. Please try again later.'')"
  using assms
  by (auto simp add: get_wikipedia_summary_def get_wiktionary_definition_def
      get_wikiquote_quotes_def get_wikibooks_content_def get_wikiversity_resources_def
      get_wikispecies_info_def get_wikidata_health_info_def)



section \<open>Status codes and transport failures in the summary-style adapters\<close>

text \<open>
  Only the encyclopedia adapter, which reads the REST summary endpoint, has a branch for
  the status 404. The five adapters that query \<open>api.php\<close> answer 404 with the same
  HTTP-status message as any other status but 200: here the dictionary adapter on 404 and
  on 500.
\<close>

theorem dictionary_404_counterexample:
  "get_wiktionary_definition (always (Response 404 (Inr (JDict [])))) ''Nonexistent_Topic_Xyz''
     = Inr (JStr ''Error retrieving definition: HTTP 404'')
   \<and> get_wiktionary_definition (always (Response 500 (Inr (JDict [])))) ''Nonexistent_Topic_Xyz''
     = Inr (JStr ''Error retrieving definition: HTTP 500'')"
  by code_simp

text \<open>
  C6, as the code has it: on a status other than 200 the encyclopedia adapter returns its
  not-found message for 404 and its HTTP-status message otherwise; the dictionary,
  quotation, book, course and taxonomy adapters return their HTTP-status message for every
  status other than 200, 404 included; on a transport failure each of the six returns its
  connectivity message.
\<close>

theorem summary_adapters_on_failure:
  "(status \<noteq> 200 \<longrightarrow>
      get_wikipedia_summary (always (Response status body)) term =
        Inr (JStr (if status = 404
           then ''The topic '' @ CHR 0x27 # term @ CHR 0x27 #
                '' was not found on Wikipedia. Please check spelling or try another term.''
           else ''Error retrieving information: HTTP '' @ str_int status))
    \<and> get_wiktionary_definition (always (Response status body)) term =
        Inr (JStr (''Error retrieving definition: HTTP '' @ str_int status))
    \<and> get_wikiquote_quotes (always (Response status body)) term =
        Inr (JStr (''Error retrieving quotes: HTTP '' @ str_int status))
    \<and> get_wikibooks_content (always (Response status body)) term =
        Inr (JStr (''Error retrieving content: HTTP '' @ str_int status))
    \<and> get_wikiversity_resources (always (Response status body)) term =
        Inr (JStr (''Error retrieving resources: HTTP '' @ str_int status))
    \<and> get_wikispecies_info (always (Response status body)) term =
        Inr (JStr (''Error retrieving species information: HTTP '' @ str_int status)))
   \<and> get_wikipedia_summary (always TransportError) term =
        Inr (JStr ''Connection error. Please check your internet connection and try again later.'')
   \<and> get_wiktionary_definition (always TransportError) term =
        Inr (JStr ''Connection error. Please try again later.'')
   \<and> get_wikiquote_quotes (always TransportError) term =
        Inr (JStr ''Connection error. Please try again later.'')
   \<and> get_wikibooks_content (always TransportError) term =
        Inr (JStr ''Connection error. Please try again later.'')
   \<and> get_wikiversity_resources (always TransportError) term =
        Inr (JStr ''Connection error. Please try again later.'')
   \<and> get_wikispecies_info (always TransportError) term =
        Inr (JStr ''Connection error. Please try again later.'')"
  by (simp add: text_adapters_on_status text_adapters_on_RequestException)

theorem summary_adapters_on_failure_witness:
  "(404 :: int) \<noteq> 200
   \<and> get_wikipedia_summary (always (Response 404 (Inr JNull))) ''Nonexistent_Topic_Xyz'' =
       Inr (JStr (''The topic '' @ CHR 0x27 # ''Nonexistent_Topic_Xyz'' @ CHR 0x27 #
                  '' was not found on Wikipedia. Please check spelling or try another term.''))
   \<and> get_wikispecies_info (always (Response 404 (Inr JNull))) ''Nonexistent_Topic_Xyz'' =
       Inr (JStr ''Error retrieving species information: HTTP 404'')
   \<and> get_wikibooks_content (always TransportError) ''Nonexistent_Topic_Xyz'' =
       Inr (JStr ''Connection error. Please try again later.'')"
  using summary_adapters_on_failure [of 404 "Inr JNull" "''Nonexistent_Topic_Xyz''"]
  by (simp add: str_int_def digit_char_def)

section \<open>What the adapters catch\<close>




section \<open>Missing pages\<close>

text \<open>
  C7: an entry keyed by a page id that is zero or negative stands for a missing page and
  is to be skipped. The quotation, book, course and taxonomy adapters test
  \<open>int(page_id) > 0\<close>; the dictionary adapter does not, and returns the extract of the
  entry keyed \<open>-1\<close>, where the book adapter on the same response finds nothing.
\<close>

theorem missing_page_returned_by_dictionary:
  "get_wiktionary_definition
     (always (Response 200 (Inr (pages_body
        [(''-1'', JDict [(''title'', JStr ''Xyz''), (''extract'', JStr ''stale text'')])]))))
     ''Xyz'' = Inr (JStr ''stale text'')
   \<and> get_wikibooks_content
     (always (Response 200 (Inr (pages_body
        [(''-1'', JDict [(''title'', JStr ''Xyz''), (''extract'', JStr ''stale text'')])]))))
     ''Xyz'' = Inr (JStr ''No Wikibooks content found for this topic.'')"
  by code_simp

text \<open>The test in the two loops that have it: such an entry is passed over.\<close>

lemma extract_pages_skip:
  "py_int page_id = Inr n \<Longrightarrow> n \<le> 0 \<Longrightarrow>
   extract_pages none pages (page_id # rest) = extract_pages none pages rest"
  by simp

lemma wikiquote_pages_skip:
  "py_int page_id = Inr n \<Longrightarrow> n \<le> 0 \<Longrightarrow>
   wikiquote_pages pages (page_id # rest) = wikiquote_pages pages rest"
  by simp

section \<open>The aggregated result\<close>





section \<open>The structured result of the knowledge-base adapter\<close>

lemma and_then_eq_Inr: "and_then m f = Inr v \<longleftrightarrow> (\<exists>x. m = Inr x \<and> f x = Inr v)"
  by (cases m) simp_all

lemma except_eq_Inr:
  "except_RequestException b h = Inr v \<longleftrightarrow> b = Inr v \<or> (b = Inl RequestException \<and> v = h)"
  by (auto simp: except_RequestException_def split: sum.splits py_exn.splits)









section \<open>The image search\<close>

lemma commons_pages_entries:
  "commons_pages pages ids acc = Inr out \<Longrightarrow> e \<in> set out \<Longrightarrow>
   e \<in> set acc \<or>
   (\<exists>t u d. e = JDict [(''title'', JStr t), (''url'', u), (''description'', JStr d)] \<and> truthy u)"
proof (induction ids arbitrary: acc)
  case Nil
  then show ?case by simp
next
  case (Cons page_id rest)
  from Cons.prems(1) obtain cond page where
    step: "(if cond then
         and_then (py_getitem page (JStr ''imageinfo'')) (\<lambda>ii.
         and_then (py_getitem ii (JInt 0)) (\<lambda>info.
         and_then (py_get page ''title'' (JStr [])) (\<lambda>t.
         and_then (py_replace t ''File:'' []) (\<lambda>title.
         and_then (py_get info ''thumburl'' (JStr [])) (\<lambda>thumb_url.
         and_then (py_get info ''extmetadata'' (JDict [])) (\<lambda>extmetadata.
         and_then (py_get extmetadata ''ImageDescription'' (JDict [])) (\<lambda>image_description.
         and_then (py_get image_description ''value'' (JStr [])) (\<lambda>d.
         and_then (py_replace d ''<p>'' []) (\<lambda>d'.
         and_then (py_replace (JStr d') ''</p>'' []) (\<lambda>description.
           commons_pages pages rest
             (if truthy thumb_url then
                acc @ [JDict [(''title'', JStr title), (''url'', thumb_url),
                                     (''description'', JStr description)]]
              else acc)))))))))))
       else commons_pages pages rest acc) = Inr out"
    by (auto simp: and_then_eq_Inr)
  show ?case
  proof (cases cond)
    case False
    with step have "commons_pages pages rest acc = Inr out" by simp
    from Cons.IH [OF this Cons.prems(2)] show ?thesis .
  next
    case True
    with step obtain title thumb_url description where
      r: "commons_pages pages rest
            (if truthy thumb_url then
               acc @ [JDict [(''title'', JStr title), (''url'', thumb_url),
                             (''description'', JStr description)]]
             else acc) = Inr out"
      by (auto simp: and_then_eq_Inr)
    from Cons.IH [OF r Cons.prems(2)] show ?thesis
      by (cases "truthy thumb_url") auto
  qed
qed

lemma commons_image_data_entries:
  assumes "commons_image_data net image_titles = Inr out" and "e \<in> set out"
  shows "\<exists>t u d. e = JDict [(''title'', JStr t), (''url'', u), (''description'', JStr d)] \<and> truthy u"
proof (cases "image_titles = []")
  case True
  with assms show ?thesis by (simp add: commons_image_data_def)
next
  case False
  with assms(1) obtain file_titles where
    c: "(case requests_get net ''https://commons.wikimedia.org/w/api.php''
                 (image_params file_titles) of
            TransportError \<Rightarrow> Inl RequestException
          | Response img_status img_body \<Rightarrow>
              if img_status = 200 then
                and_then img_body (\<lambda>img_data.
                and_then (py_get img_data ''query'' (JDict [])) (\<lambda>img_query.
                and_then (py_get img_query ''pages'' (JDict [])) (\<lambda>pages.
                and_then (py_iter pages) (\<lambda>ids. commons_pages pages ids []))))
              else Inr []) = Inr out"
    by (auto simp: commons_image_data_def and_then_eq_Inr)
  show ?thesis
  proof (cases "requests_get net ''https://commons.wikimedia.org/w/api.php''
                 (image_params file_titles)")
    case TransportError
    with c show ?thesis by simp
  next
    case (Response img_status img_body)
    show ?thesis
    proof (cases "img_status = 200")
      case False
      with c Response assms(2) show ?thesis by simp
    next
      case True
      with c Response obtain pages ids where "commons_pages pages ids [] = Inr out"
        by (auto simp: and_then_eq_Inr)
      from commons_pages_entries [OF this assms(2)] show ?thesis by simp
    qed
  qed
qed

lemma commons_image_data_failed:
  assumes "image_titles \<noteq> []" and "py_join ''|'' image_titles = Inr file_titles"
    and "call_failed (requests_get net ''https://commons.wikimedia.org/w/api.php''
                        (image_params file_titles))"
  shows "commons_image_data net image_titles = Inr [] \<or>
         commons_image_data net image_titles = Inl RequestException"
  using assms
  by (auto simp: commons_image_data_def call_failed_def split: http_result.splits)


text \<open>
  C5: for every term, when the first call of \<open>get_wikimedia_commons_images\<close> fails (a
  transport error or a status other than 200), the result is the empty list; when the
  first call succeeds, titles are found and the second call, made with their join, fails,
  the result is the empty list as well; and every entry of any list the function returns
  is a descriptor with exactly the keys title, url and description whose url is truthy:
  neither \<open>None\<close> nor the empty string.
\<close>

theorem commons_failure_and_entries:
  "(call_failed (requests_get net ''https://commons.wikimedia.org/w/api.php''
                   (commons_params term limit)) \<longrightarrow>
      get_wikimedia_commons_images net term limit = Inr (JList []))
   \<and> (requests_get net ''https://commons.wikimedia.org/w/api.php'' (commons_params term limit)
         = Response 200 (Inr data)
       \<and> py_get data ''query'' (JDict []) = Inr query
       \<and> py_get query ''search'' (JList []) = Inr search_results
       \<and> py_iter search_results = Inr results
       \<and> commons_titles results [] = Inr image_titles
       \<and> image_titles \<noteq> []
       \<and> py_join ''|'' image_titles = Inr file_titles
       \<and> call_failed (requests_get net ''https://commons.wikimedia.org/w/api.php''
                         (image_params file_titles)) \<longrightarrow>
      get_wikimedia_commons_images net term limit = Inr (JList []))
   \<and> (\<forall>v. get_wikimedia_commons_images net term limit = Inr v \<longrightarrow>
         (\<exists>entries. v = JList entries
            \<and> (\<forall>e \<in> set entries. \<exists>title url description.
                  e = JDict [(''title'', JStr title), (''url'', url),
                             (''description'', JStr description)]
                  \<and> truthy url \<and> url \<noteq> JNull \<and> url \<noteq> JStr [])))"
proof (intro conjI impI allI)
  assume "call_failed (requests_get net ''https://commons.wikimedia.org/w/api.php''
                   (commons_params term limit))"
  then show "get_wikimedia_commons_images net term limit = Inr (JList [])"
    by (auto simp: get_wikimedia_commons_images_def call_failed_def split: http_result.splits)
next
  assume h: "requests_get net ''https://commons.wikimedia.org/w/api.php'' (commons_params term limit)
         = Response 200 (Inr data)
       \<and> py_get data ''query'' (JDict []) = Inr query
       \<and> py_get query ''search'' (JList []) = Inr search_results
       \<and> py_iter search_results = Inr results
       \<and> commons_titles results [] = Inr image_titles
       \<and> image_titles \<noteq> []
       \<and> py_join ''|'' image_titles = Inr file_titles
       \<and> call_failed (requests_get net ''https://commons.wikimedia.org/w/api.php''
                         (image_params file_titles))"
  then have "commons_image_data net image_titles = Inr [] \<or>
             commons_image_data net image_titles = Inl RequestException"
    using commons_image_data_failed [of image_titles file_titles net] by blast
  with h show "get_wikimedia_commons_images net term limit = Inr (JList [])"
    by (auto simp: get_wikimedia_commons_images_def)
next
  fix v
  assume r: "get_wikimedia_commons_images net term limit = Inr v"
  show "\<exists>entries. v = JList entries
            \<and> (\<forall>e \<in> set entries. \<exists>title url description.
                  e = JDict [(''title'', JStr title), (''url'', url),
                             (''description'', JStr description)]
                  \<and> truthy url \<and> url \<noteq> JNull \<and> url \<noteq> JStr [])"
  proof (cases "v = JList []")
    case True
    then show ?thesis by simp
  next
    case False
    with r obtain image_titles image_data where
      d: "commons_image_data net image_titles = Inr image_data" and v: "v = JList image_data"
      unfolding get_wikimedia_commons_images_def
      by (cases "requests_get net ''https://commons.wikimedia.org/w/api.php''
                   (commons_params term limit)")
         (auto simp: except_eq_Inr and_then_eq_Inr split: if_split_asm)
    have "\<exists>title url description.
            e = JDict [(''title'', JStr title), (''url'', url), (''description'', JStr description)]
            \<and> truthy url \<and> url \<noteq> JNull \<and> url \<noteq> JStr []"
      if "e \<in> set image_data" for e
    proof -
      from commons_image_data_entries [OF d that] obtain t u d' where
        e: "e = JDict [(''title'', JStr t), (''url'', u), (''description'', JStr d')]"
        and u: "truthy u" by blast
      from u have "u \<noteq> JNull" "u \<noteq> JStr []" by auto
      with e u show ?thesis by blast
    qed
    with v show ?thesis by blast
  qed
qed

theorem commons_failure_and_entries_witness:
  "get_wikimedia_commons_images (always TransportError) ''apple'' 5 = Inr (JList [])
   \<and> get_wikimedia_commons_images (search_then apple_hits (Response 503 (Inr JNull))) ''apple'' 5
       = Inr (JList [])
   \<and> get_wikimedia_commons_images (search_then apple_hits TransportError) ''apple'' 5
       = Inr (JList [])
   \<and> get_wikimedia_commons_images (search_then apple_hits apple_pages) ''apple'' 5
       = Inr (JList [JDict [(''title'', JStr ''Apple.jpg''),
                            (''url'', JStr ''https://upload.example/300px-Apple.jpg''),
                            (''description'', JStr ''An apple'')]])
   \<and> (\<exists>entries.
         JList [JDict [(''title'', JStr ''Apple.jpg''),
                       (''url'', JStr ''https://upload.example/300px-Apple.jpg''),
                       (''description'', JStr ''An apple'')]] = JList entries
       \<and> (\<forall>e \<in> set entries. \<exists>title url description.
             e = JDict [(''title'', JStr title), (''url'', url), (''description'', JStr description)]
             \<and> truthy url \<and> url \<noteq> JNull \<and> url \<noteq> JStr []))"
proof -
  let ?url = "''https://commons.wikimedia.org/w/api.php''"
  let ?results = "[JDict [(''title'', JStr ''File:Apple.jpg'')],
                   JDict [(''title'', JStr ''File:Pear.jpg'')]]"
  let ?query = "JDict [(''search'', JList ?results)]"
  let ?data = "JDict [(''query'', ?query)]"
  let ?titles = "[JStr ''File:Apple.jpg'', JStr ''File:Pear.jpg'']"
  let ?joined = "''File:Apple.jpg|File:Pear.jpg''"
  have first: "get_wikimedia_commons_images (always TransportError) ''apple'' 5 = Inr (JList [])"
    using commons_failure_and_entries [of "always TransportError" "''apple''" 5]
    by (simp add: call_failed_def)
  have failing:
    "get_wikimedia_commons_images (search_then apple_hits r) ''apple'' 5 = Inr (JList [])"
    if cf: "call_failed r" for r
  proof -
    have "requests_get (search_then apple_hits r) ?url (commons_params ''apple'' 5)
            = Response 200 (Inr ?data)"
      by (simp add: requests_get_def search_then_def commons_params_def apple_hits_def)
    moreover have "py_join ''|'' ?titles = Inr ?joined" by simp
    moreover have "call_failed (requests_get (search_then apple_hits r) ?url (image_params ?joined))"
      using cf by (simp add: requests_get_def search_then_def image_params_def)
    ultimately have
      "requests_get (search_then apple_hits r) ?url (commons_params ''apple'' 5)
         = Response 200 (Inr ?data)
       \<and> py_get ?data ''query'' (JDict []) = Inr ?query
       \<and> py_get ?query ''search'' (JList []) = Inr (JList ?results)
       \<and> py_iter (JList ?results) = Inr ?results
       \<and> commons_titles ?results [] = Inr ?titles
       \<and> ?titles \<noteq> []
       \<and> py_join ''|'' ?titles = Inr ?joined
       \<and> call_failed (requests_get (search_then apple_hits r) ?url (image_params ?joined))"
      by simp
    from commons_failure_and_entries
      [of "search_then apple_hits r" "''apple''" 5 ?data ?query "JList ?results" ?results
          ?titles ?joined, THEN conjunct2, THEN conjunct1, THEN mp, OF this]
    show ?thesis .
  qed
  have status: "get_wikimedia_commons_images (search_then apple_hits (Response 503 (Inr JNull)))
                  ''apple'' 5 = Inr (JList [])"
    by (rule failing) (simp add: call_failed_def)
  have transport: "get_wikimedia_commons_images (search_then apple_hits TransportError)
                  ''apple'' 5 = Inr (JList [])"
    by (rule failing) (simp add: call_failed_def)
  have ok: "get_wikimedia_commons_images (search_then apple_hits apple_pages) ''apple'' 5
       = Inr (JList [JDict [(''title'', JStr ''Apple.jpg''),
                            (''url'', JStr ''https://upload.example/300px-Apple.jpg''),
                            (''description'', JStr ''An apple'')]])"
    by code_simp
  from commons_failure_and_entries
      [of "search_then apple_hits apple_pages" "''apple''" 5, THEN conjunct2, THEN conjunct2,
       THEN spec, THEN mp, OF ok]
  have entries: "\<exists>entries.
         JList [JDict [(''title'', JStr ''Apple.jpg''),
                       (''url'', JStr ''https://upload.example/300px-Apple.jpg''),
                       (''description'', JStr ''An apple'')]] = JList entries
       \<and> (\<forall>e \<in> set entries. \<exists>title url description.
             e = JDict [(''title'', JStr title), (''url'', url), (''description'', JStr description)]
             \<and> truthy url \<and> url \<noteq> JNull \<and> url \<noteq> JStr [])" .
  from first status transport ok entries show ?thesis by (intro conjI)
qed


end
